theory Spec2Isabelle
  imports Main "HOL-Library.Word" "HOL-Library.AList"
begin

section \<open>Values of the Python program\<close>

text \<open>
  A Python \<open>str\<close> is represented by the characters of its UTF-8 encoding: the program
  only concatenates strings, compares them with \<open>''\<close> and with each other, tests their
  truth value (non-emptiness) and matches ASCII suffixes, and all of these agree on the
  encoding. A Python \<open>bytes\<close> value is a list of 8-bit words.
\<close>

type_synonym byte = "8 word"

text \<open>
  An exception is represented by its class, as far as a handler of the program tells classes
  apart, and by the text \<open>str(e)\<close>. \<open>json.JSONDecodeError\<close> is the only class caught apart
  from \<open>Exception\<close>.
\<close>

datatype exn = JSONDecodeError string | Exception string

fun str :: "exn \<Rightarrow> string" where
  "str (JSONDecodeError m) = m"
| "str (Exception m) = m"

text \<open>
  Dictionaries, lists, strings and integers as the program builds them for JSON bodies, chat
  messages and query results. A dictionary is an association list in insertion order, and
  \<open>AList.update\<close> is Python's \<open>d[k] = v\<close>: an existing key keeps its place, a new key goes
  last. \<open>PyOther\<close> holds the values the program passes on without looking at them (null,
  booleans, floats, timestamps).
\<close>

datatype 'a pyval =
    PyOther 'a
  | PyInt int
  | PyStr string
  | PyList "'a pyval list"
  | PyDict "(string \<times> 'a pyval) list"

section \<open>File Classifier\<close>

definition lower_char :: "char \<Rightarrow> char" where
  "lower_char c =
     (case map_of (zip ''ABCDEFGHIJKLMNOPQRSTUVWXYZ'' ''abcdefghijklmnopqrstuvwxyz'') c of
        Some l \<Rightarrow> l
      | None \<Rightarrow> c)"

text \<open>
  \<open>str.lower()\<close> on the result of \<open>secure_filename\<close>, which holds ASCII letters, digits,
  \<open>_\<close>, \<open>.\<close> and \<open>-\<close> only: the upper-case ASCII letters change, nothing else does.
\<close>

definition lower :: "string \<Rightarrow> string" where
  "lower s = map lower_char s"

definition endswith :: "string \<Rightarrow> string \<Rightarrow> bool" where
  "endswith s ext = (length ext \<le> length s \<and> drop (length s - length ext) s = ext)"

definition ALLOWED_EXTENSIONS :: "string list" where
  "ALLOWED_EXTENSIONS =
     [''.txt'', ''.pdf'', ''.doc'', ''.docx'', ''.png'', ''.jpg'', ''.jpeg'', ''.bmp'',
      ''.gif'', ''.tiff'', ''.webp'']"

definition IMAGE_EXTENSIONS :: "string list" where
  "IMAGE_EXTENSIONS = [''.png'', ''.jpg'', ''.jpeg'', ''.bmp'', ''.gif'', ''.tiff'', ''.webp'']"

definition is_allowed_file :: "string \<Rightarrow> bool" where
  "is_allowed_file filename = list_ex (\<lambda>ext. endswith (lower filename) ext) ALLOWED_EXTENSIONS"

definition is_image_file :: "string \<Rightarrow> bool" where
  "is_image_file filename = list_ex (\<lambda>ext. endswith (lower filename) ext) IMAGE_EXTENSIONS"

section \<open>Content Loader\<close>

subsection \<open>Base64\<close>

definition b64_alphabet :: string where
  "b64_alphabet = ''ABCDEFGHIJKLMNOPQRSTUVWXYZabcdefghijklmnopqrstuvwxyz0123456789+/''"

definition b64_char :: "nat \<Rightarrow> char" where
  "b64_char i = b64_alphabet ! (i mod 64)"

text \<open>
  \<open>base64.b64encode(file_content).decode('utf-8')\<close>: three bytes give four characters of
  the alphabet, a last group of one or two bytes is padded with \<open>=\<close>. The encoder's output
  is ASCII, so decoding it as UTF-8 gives the same characters; the model returns them as a
  string at once.
\<close>

fun b64encode :: "byte list \<Rightarrow> string" where
  "b64encode [] = []"
| "b64encode [a] =
     (let x = unat a
      in [b64_char (x div 4), b64_char (x mod 4 * 16), CHR ''='', CHR ''=''])"
| "b64encode [a, b] =
     (let x = unat a; y = unat b
      in [b64_char (x div 4), b64_char (x mod 4 * 16 + y div 16), b64_char (y mod 16 * 4),
          CHR ''=''])"
| "b64encode (a # b # c # rest) =
     (let x = unat a; y = unat b; z = unat c
      in [b64_char (x div 4), b64_char (x mod 4 * 16 + y div 16),
          b64_char (y mod 16 * 4 + z div 64), b64_char (z mod 64)] @ b64encode rest)"

text \<open>
  \<open>base64.b64decode\<close> is not called by the program; it is the decoder a reader of the stored
  \<open>content\<close> applies. Four characters give three bytes; \<open>=\<close> is accepted only as the padding
  of the last group; a character outside the alphabet or a length that is not a multiple of
  four is an error (\<open>None\<close>).
\<close>

fun b64_index_from :: "nat \<Rightarrow> string \<Rightarrow> char \<Rightarrow> nat option" where
  "b64_index_from i [] c = None"
| "b64_index_from i (x # xs) c = (if x = c then Some i else b64_index_from (Suc i) xs c)"

definition b64_index :: "char \<Rightarrow> nat option" where
  "b64_index c = b64_index_from 0 b64_alphabet c"

fun b64decode :: "string \<Rightarrow> byte list option" where
  "b64decode [] = Some []"
| "b64decode (c0 # c1 # c2 # c3 # rest) =
     (case (b64_index c0, b64_index c1) of
        (Some i0, Some i1) \<Rightarrow>
          if c2 = CHR ''='' \<and> c3 = CHR ''='' \<and> rest = [] then
            Some [of_nat (i0 * 4 + i1 div 16)]
          else
            (case b64_index c2 of
               Some i2 \<Rightarrow>
                 if c3 = CHR ''='' \<and> rest = [] then
                   Some [of_nat (i0 * 4 + i1 div 16), of_nat (i1 mod 16 * 16 + i2 div 4)]
                 else
                   (case (b64_index c3, b64decode rest) of
                      (Some i3, Some bs) \<Rightarrow>
                        Some (of_nat (i0 * 4 + i1 div 16)
                              # of_nat (i1 mod 16 * 16 + i2 div 4)
                              # of_nat (i2 mod 4 * 64 + i3) # bs)
                    | _ \<Rightarrow> None)
             | None \<Rightarrow> None)
      | _ \<Rightarrow> None)"
| "b64decode _ = None"

subsection \<open>UTF-8\<close>

definition is_cont :: "byte \<Rightarrow> bool" where
  "is_cont b = (0x80 \<le> b \<and> b \<le> 0xBF)"

text \<open>
  The byte sequences that \<open>bytes.decode('utf-8')\<close> accepts: the well-formed sequences of the
  Unicode standard (no overlong forms, no surrogates, nothing above U+10FFFF).
\<close>

fun utf8_valid :: "byte list \<Rightarrow> bool" where
  "utf8_valid [] = True"
| "utf8_valid (b # bs) =
     (if b \<le> 0x7F then utf8_valid bs
      else if 0xC2 \<le> b \<and> b \<le> 0xDF then
        (case bs of
           c1 # r \<Rightarrow> is_cont c1 \<and> utf8_valid r
         | _ \<Rightarrow> False)
      else if 0xE0 \<le> b \<and> b \<le> 0xEF then
        (case bs of
           c1 # c2 # r \<Rightarrow>
             (if b = 0xE0 then 0xA0 \<le> c1 \<and> c1 \<le> 0xBF
              else if b = 0xED then 0x80 \<le> c1 \<and> c1 \<le> 0x9F
              else is_cont c1)
             \<and> is_cont c2 \<and> utf8_valid r
         | _ \<Rightarrow> False)
      else if 0xF0 \<le> b \<and> b \<le> 0xF4 then
        (case bs of
           c1 # c2 # c3 # r \<Rightarrow>
             (if b = 0xF0 then 0x90 \<le> c1 \<and> c1 \<le> 0xBF
              else if b = 0xF4 then 0x80 \<le> c1 \<and> c1 \<le> 0x8F
              else is_cont c1)
             \<and> is_cont c2 \<and> is_cont c3 \<and> utf8_valid r
         | _ \<Rightarrow> False)
      else False)"

text \<open>
  \<open>file_content.decode('utf-8')\<close>: \<open>None\<close> is \<open>UnicodeDecodeError\<close>, whose message the
  program never reads; the text decoded is represented by its encoding, byte for byte.
\<close>

definition decode_utf8 :: "byte list \<Rightarrow> string option" where
  "decode_utf8 bs = (if utf8_valid bs then Some (map (\<lambda>b. char_of (unat b)) bs) else None)"

subsection \<open>\<open>process_file_content\<close>\<close>

text \<open>
  An uploaded file (werkzeug's \<open>FileStorage\<close>): the name the client sent and what
  \<open>file.read()\<close> does, returning the bytes or raising.
\<close>

datatype upload = FileStorage (file_filename: string) (file_read: "exn + byte list")

record attachment =
  filename :: string
  content :: string
  is_image :: bool

text \<open>
  \<open>secure_filename\<close> is werkzeug's and is a parameter of the model. The result is the
  pair \<open>(file_data, error)\<close> the function returns, \<open>None\<close> being Python's \<open>None\<close>.
\<close>

definition process_file_content ::
  "(string \<Rightarrow> string) \<Rightarrow> upload \<Rightarrow> attachment option \<times> string option" where
  "process_file_content secure_filename file =
     (let filename = secure_filename (file_filename file)
      in if \<not> is_allowed_file filename then
           (None, Some (''File type not supported: '' @ filename))
         else
           (case file_read file of
              Inl e \<Rightarrow> (None, Some (str e))
            | Inr file_content \<Rightarrow>
                if is_image_file filename then
                  (Some \<lparr>filename = filename, content = b64encode file_content,
                         is_image = is_image_file filename\<rparr>, None)
                else
                  (case decode_utf8 file_content of
                     None \<Rightarrow> (None, Some (''Could not decode file as UTF-8 text: '' @ filename))
                   | Some decoded \<Rightarrow>
                       (Some \<lparr>filename = filename, content = decoded,
                              is_image = is_image_file filename\<rparr>, None))))"

section \<open>Prompt Assembler and Completion Invoker\<close>

text \<open>The constant \<open>PROMPT_TEMPLATE\<close>, line by line.\<close>

definition PROMPT_TEMPLATE :: string where
  \<open>PROMPT_TEMPLATE = concat
    [''### You are an expert assistant for extracting structured data from emails and attachments.\<newline>'',
     ''\<newline>'',
     ''Given one or more emails (with or without attachments), your task is to analyze the content and return a JSON response strictly conforming to the following schema and requirements.\<newline>'',
     ''\<newline>'',
     ''## Standard Response Format (Always Conform to This Template)\<newline>'',
     ''\<newline>'',
     ''{\<newline>'',
     ''  "MAIL_ID_1": {\<newline>'',
     ''    "Summary": "One-paragraph summary of the email and its purpose.",\<newline>'',
     ''    "ActionItems": [\<newline>'',
     ''      "List actionable items for the user based on the email and its attachments."\<newline>'',
     ''    ],\<newline>'',
     ''    "Urgency": "Low | Medium | High",\<newline>'',
     ''    "files": {\<newline>'',
     ''      "FILE_ID_1": {\<newline>'',
     ''        "Type": "...",\<newline>'',
     ''        "sender": "...",\<newline>'',
     ''        "received_date": "...",\<newline>'',
     ''        "Summary": "...",\<newline>'',
     ''        "Details": "...",\<newline>'',
     ''        "tags": ["..."],\<newline>'',
     ''        "Urgency": "Low | Medium | High",\<newline>'',
     ''        // Include any other relevant fields found in the document, such as:\<newline>'',
     ''        // "ActionRequired": "...",\<newline>'',
     ''        // "Amount": "...",\<newline>'',
     ''        // "PaymentDetails": { ... },\<newline>'',
     ''        // Additional context-dependent fields as present in the source (e.g., "Authority", "Store", "Reference", etc.)\<newline>'',
     ''      }\<newline>'',
     ''      // More file_id entries as needed\<newline>'',
     ''    }\<newline>'',
     ''    // The 'files' key is optional and present only if the mail has one or more attachments.\<newline>'',
     ''  },\<newline>'',
     ''  // More mail_id entries as needed\<newline>'',
     ''\<newline>'',
     ''  "calendar_add_details": [\<newline>'',
     ''    {\<newline>'',
     ''      "date": "YYYY-MM-DD",\<newline>'',
     ''      "time": "HH:mm",\<newline>'',
     ''      "action": "...",\<newline>'',
     ''      "source_mail_id": "...",\<newline>'',
     ''      "source_file_id": "...",  // or null if not applicable\<newline>'',
     ''      "execution_details": {\<newline>'',
     ''        // Relevant structured fields for this event/action, e.g.:\<newline>'',
     ''        // "amount": "...",\<newline>'',
     ''        // "reference": "...",\<newline>'',
     ''        // "location": "...",\<newline>'',
     ''        // "meeting_link": "...",\<newline>'',
     ''        // Dynamic fields as appropriate for the context\<newline>'',
     ''      }\<newline>'',
     ''    }\<newline>'',
     ''    // More entries as needed\<newline>'',
     ''  ]\<newline>'',
     ''}\<newline>'',
     ''\<newline>'',
     ''## Field Explanations\<newline>'',
     ''\<newline>'',
     ''### Per Email (MAIL_ID object):\<newline>'',
     ''\<newline>'',
     ''- Summary: One-paragraph, human-readable summary of the email's contents and its purpose.\<newline>'',
     ''- ActionItems: List of actionable tasks or required follow-ups for the user.\<newline>'',
     ''- Urgency: "Low", "Medium", or "High"'' @ [CHR 0xE2, CHR 0x80, CHR 0x94] @ ''the overall priority.\<newline>'',
     ''- files: (Optional; only if there are attachments)\<newline>'',
     ''  An object where each key is a unique file ID. Each file object includes:\<newline>'',
     ''  - Type (required): Nature/type of the document (e.g., Invoice, Bill, Tax Notice).\<newline>'',
     ''  - sender (required): Who sent or authored the attachment.\<newline>'',
     ''  - received_date (required): When the attachment was received or dated.\<newline>'',
     ''  - Summary (required): Short summary of the attachment.\<newline>'',
     ''  - Details (required): Detailed description of the attachment.\<newline>'',
     ''  - tags (required): Array of relevant tags.\<newline>'',
     ''  - Urgency (required): "Low", "Medium", or "High".\<newline>'',
     ''  - ActionRequired, Amount, PaymentDetails: (Include if available)'' @ [CHR 0xE2, CHR 0x80, CHR 0x94] @ ''and any other relevant fields found in the attachment, using the same field names and data types.\<newline>'',
     ''\<newline>'',
     ''### Per Calendar Entry (calendar_add_details array):\<newline>'',
     ''\<newline>'',
     ''Each entry must include:\<newline>'',
     ''- date: Date of the event/action (format: YYYY-MM-DD).\<newline>'',
     ''- time: Time of the event/action (format: HH:mm or as in examples).\<newline>'',
     ''- action: Human-readable description of the event/action.\<newline>'',
     ''- source_mail_id: The mail ID this entry was derived from.\<newline>'',
     ''- source_file_id: The file ID this entry was derived from, or null if not from an attachment.\<newline>'',
     ''- execution_details: Object of relevant, structured fields (amount, reference, location, meeting link, etc.), as appropriate for the action.\<newline>'',
     ''\<newline>'',
     ''## General Rules\<newline>'',
     ''\<newline>'',
     ''- Always conform to the above JSON schema.\<newline>'',
     ''- All required fields must be present (if no data, use "NA", null, or empty arrays/objects as appropriate).\<newline>'',
     ''- Always include calendar_add_details as an array (even if empty).\<newline>'',
     ''- Omit the files object if the email has no attachments.\<newline>'',
     ''- Never output text or explanation outside the JSON.\<newline>'',
     ''- Extract any additional relevant fields present in the input and include them at the correct level, using the source field name and data type.\<newline>'',
     ''- Maintain field order, spelling, and types as in the schema and examples.\<newline>'',
     ''\<newline>'',
     ''Your instructions:\<newline>'',
     ''- Always conform to the Standard Response Format and field rules.\<newline>'',
     ''- Never include any text outside the required JSON.\<newline>'',
     ''- Include any and all relevant fields found in the input, following the schema.\<newline>'',
     ''- Maintain field order, spelling, and structure.\<newline>'']\<close>

text \<open>The decimal digits of a natural number, as an f-string prints \<open>len(files_data)\<close> and \<open>i\<close>.\<close>

definition digit_char :: "nat \<Rightarrow> char" where
  "digit_char n = ''0123456789'' ! (n mod 10)"

function str_nat :: "nat \<Rightarrow> string" where
  "str_nat n = (if n < 10 then [digit_char n] else str_nat (n div 10) @ [digit_char n])"
  by pat_completeness auto
termination
  by (relation "measure (\<lambda>n. n)") auto

declare str_nat.simps [simp del]

text \<open>
  The loop \<open>for i, file_data in enumerate(files_data, 1)\<close>, with the two values it updates:
  \<open>messages\<close> and \<open>email_content\<close>. An entry of \<open>files_data\<close> is a dictionary with the
  keys \<open>filename\<close>, \<open>content\<close> and \<open>is_image\<close>, or \<open>None\<close>; subscripting \<open>None\<close> raises
  \<open>TypeError\<close>.
\<close>

fun attachments_loop ::
  "nat \<Rightarrow> attachment option list \<Rightarrow> 'a pyval list \<Rightarrow> string \<Rightarrow> exn + 'a pyval list \<times> string" where
  "attachments_loop i [] messages email_content = Inr (messages, email_content)"
| "attachments_loop i (None # rest) messages email_content =
     Inl (Exception ([CHR 0x27] @ ''NoneType'' @ [CHR 0x27] @ '' object is not subscriptable''))"
| "attachments_loop i (Some file_data # rest) messages email_content =
     (let filename = filename file_data;
          content = content file_data;
          is_image = is_image file_data;
          email_content = email_content @ ''Attachment '' @ str_nat i @ '': '' @ filename @ ''\<newline>''
      in if is_image then
           attachments_loop (Suc i) rest
             (messages @
               [PyDict
                 [(''role'', PyStr ''user''),
                  (''content'', PyList
                    [PyDict [(''type'', PyStr ''text''), (''text'', PyStr (''Attachment: '' @ filename))],
                     PyDict [(''type'', PyStr ''image_url''),
                             (''image_url'', PyDict
                               [(''url'', PyStr (''data:image/jpeg;base64,'' @ content))])]])]])
             email_content
         else
           attachments_loop (Suc i) rest messages
             (email_content @ ''Content: '' @ content @ ''\<newline>\<newline>''))"

text \<open>Lines 224 to 260 of \<open>analyze_documents_with_openai\<close>: the list \<open>messages\<close> sent.\<close>

definition build_messages :: "string \<Rightarrow> attachment option list \<Rightarrow> exn + 'a pyval list" where
  "build_messages mail_id files_data =
     (let messages =
            [PyDict [(''role'', PyStr ''system''),
                     (''content'',
                      PyStr ''You are a helpful assistant for email and document data extraction.'')],
             PyDict [(''role'', PyStr ''user''), (''content'', PyStr PROMPT_TEMPLATE)]];
          email_content = ''Mail ID: '' @ mail_id @ ''\<newline>\<newline>''
      in case (if files_data \<noteq> [] then
                 attachments_loop 1 files_data messages
                   (email_content @ ''This email has '' @ str_nat (length files_data)
                      @ '' attachment(s):\<newline>\<newline>'')
               else Inr (messages, email_content @ ''This email has no attachments.\<newline>'')) of
           Inl e \<Rightarrow> Inl e
         | Inr (messages, email_content) \<Rightarrow>
             Inr (messages @ [PyDict [(''role'', PyStr ''user''), (''content'', PyStr email_content)]]))"

text \<open>
  The arguments of \<open>openai_client.chat.completions.create\<close>. The call is a parameter of the
  model: it raises, or returns the response, of which the program reads the \<open>message.content\<close>
  of each element of \<open>choices\<close> (a string or \<open>None\<close>). \<open>json.loads\<close> is a parameter as well.
\<close>

record 'a completion_request =
  model :: string
  messages :: "'a pyval list"
  max_tokens :: nat
  temperature :: int

type_synonym 'a completions_create = "'a completion_request \<Rightarrow> exn + string option list"

type_synonym 'a json_loads = "string \<Rightarrow> exn + 'a pyval"

text \<open>The body of the \<open>try\<close> block up to \<open>json.loads\<close>: the parsed reply, or what is raised.\<close>

definition extract_data ::
  "'a completions_create \<Rightarrow> 'a json_loads \<Rightarrow> string \<Rightarrow> attachment option list \<Rightarrow> exn + 'a pyval" where
  "extract_data create json_loads mail_id files_data =
     (case build_messages mail_id files_data of
        Inl e \<Rightarrow> Inl e
      | Inr assembled \<Rightarrow>
          (case create \<lparr>model = ''gpt-4o-mini'', messages = assembled, max_tokens = 4000,
                        temperature = 0\<rparr> of
             Inl e \<Rightarrow> Inl e
           | Inr choices \<Rightarrow>
               (case choices of
                  [] \<Rightarrow> Inl (Exception ''list index out of range'')
                | None # _ \<Rightarrow>
                    Inl (Exception ''the JSON object must be str, bytes or bytearray, not NoneType'')
                | Some reply # _ \<Rightarrow> json_loads reply)))"

definition analyze_documents_with_openai ::
  "'a completions_create \<Rightarrow> 'a json_loads \<Rightarrow> string \<Rightarrow> attachment option list \<Rightarrow> 'a pyval" where
  "analyze_documents_with_openai create json_loads mail_id files_data =
     (case extract_data create json_loads mail_id files_data of
        Inr extracted_data \<Rightarrow>
          PyDict [(''mail_id'', PyStr mail_id),
                  (''extracted_data'', extracted_data),
                  (''status'', PyStr ''success'')]
      | Inl (JSONDecodeError m) \<Rightarrow>
          PyDict [(''mail_id'', PyStr mail_id),
                  (''extracted_data'', PyDict []),
                  (''status'', PyStr ''error''),
                  (''error'', PyStr (''JSON parsing error: '' @ m))]
      | Inl (Exception m) \<Rightarrow>
          PyDict [(''mail_id'', PyStr mail_id),
                  (''extracted_data'', PyDict []),
                  (''status'', PyStr ''error''),
                  (''error'', PyStr m)])"

section \<open>HTTP endpoints\<close>

text \<open>
  What the handlers read of Flask's \<open>request\<close>: \<open>request.headers.get\<close>, the pairs of
  \<open>request.args.items()\<close>, and the multipart form, whose loading raises (an upload over
  \<open>MAX_CONTENT_LENGTH\<close>) or gives \<open>request.form.get('mail_id')\<close> and
  \<open>request.files.getlist('files')\<close>. A response is the pair of the body given to \<open>jsonify\<close>
  and the status code. Calls of \<open>logger\<close> change no value returned and are left out.
\<close>

record form_data =
  form_mail_id :: "string option"
  files :: "upload list"

record request =
  headers :: "string \<Rightarrow> string option"
  args_items :: "(string \<times> string) list"
  form :: "exn + form_data"

type_synonym 'a response = "'a pyval \<times> nat"

text \<open>The truth value of a string or \<open>None\<close>: false for \<open>None\<close> and for the empty string.\<close>

fun truthy :: "string option \<Rightarrow> bool" where
  "truthy None = False"
| "truthy (Some s) = (s \<noteq> [])"

subsection \<open>\<open>/process\<close>\<close>

text \<open>The loop \<open>for file in files\<close> of \<open>process_files\<close>, appending to \<open>files_data\<close>.\<close>

fun process_files_loop ::
  "(string \<Rightarrow> string) \<Rightarrow> upload list \<Rightarrow> attachment option list \<Rightarrow> attachment option list" where
  "process_files_loop secure_filename [] files_data = files_data"
| "process_files_loop secure_filename (file # rest) files_data =
     (if file_filename file = [] then process_files_loop secure_filename rest files_data
      else
        (case process_file_content secure_filename file of
           (file_data, error) \<Rightarrow>
             if truthy error then process_files_loop secure_filename rest files_data
             else process_files_loop secure_filename rest (files_data @ [file_data])))"

definition process_files ::
  "'a completions_create \<Rightarrow> 'a json_loads \<Rightarrow> (string \<Rightarrow> string) \<Rightarrow> request \<Rightarrow> 'a response" where
  "process_files create json_loads secure_filename request =
     (case form request of
        Inl e \<Rightarrow> (PyDict [(''error'', PyStr (str e))], 500)
      | Inr form_data \<Rightarrow>
          (let mail_id = (case form_mail_id form_data of Some m \<Rightarrow> m | None \<Rightarrow> ''mail_001'');
               files_data =
                 (if files form_data \<noteq> []
                  then process_files_loop secure_filename (files form_data) []
                  else []);
               analysis_result = analyze_documents_with_openai create json_loads mail_id files_data
           in (PyDict [(''status'', PyStr ''completed''),
                       (''mail_id'', PyStr mail_id),
                       (''total_attachments'', PyInt (int (length files_data))),
                       (''result'', analysis_result)], 200)))"

subsection \<open>\<open>/health\<close>\<close>

definition health :: "'a response" where
  "health = (PyDict [(''status'', PyStr ''ok''), (''service'', PyStr ''File Processing Service'')], 200)"

subsection \<open>The API key\<close>

text \<open>
  The decorator \<open>require_api_key\<close>: \<open>getenv\<close> is \<open>os.getenv\<close>, \<open>func\<close> the decorated view
  and \<open>view_args\<close> the arguments Flask calls it with.
\<close>

definition require_api_key ::
  "(string \<Rightarrow> string option) \<Rightarrow> request \<Rightarrow> ('v \<Rightarrow> 'a response) \<Rightarrow> 'v \<Rightarrow> 'a response" where
  "require_api_key getenv request func view_args =
     (let api_key = headers request ''X-API-Key'';
          expected_key = getenv ''API_KEY''
      in if truthy expected_key \<and> api_key \<noteq> expected_key then
           (PyDict [(''status'', PyStr ''error''), (''error'', PyStr ''Invalid API key'')], 401)
         else func view_args)"

subsection \<open>The collection query\<close>

text \<open>
  The Firestore client is a parameter of the model, given by the calls the program makes on
  it. \<open>'q\<close> is the type of collection references and queries, \<open>'d\<close> that of document
  snapshots. \<open>db.collection(name)\<close>, \<open>query.where(field, "==", value)\<close> and
  \<open>doc.reference.collection(name)\<close> return a query or raise (a name or a field path the
  library refuses). \<open>query.stream()\<close> is a generator: it yields documents and then either
  ends or raises, so it is the list of the documents yielded with the exception raised after
  them, if any.
\<close>

record ('q, 'd, 'a) firestore =
  collection :: "string \<Rightarrow> exn + 'q"
  where_eq :: "'q \<Rightarrow> string \<Rightarrow> 'a pyval \<Rightarrow> exn + 'q"
  stream :: "'q \<Rightarrow> 'd list \<times> exn option"
  doc_id :: "'d \<Rightarrow> string"
  to_dict :: "'d \<Rightarrow> (string \<times> 'a pyval) list"
  doc_collection :: "'d \<Rightarrow> string \<Rightarrow> exn + 'q"

text \<open>\<open>for field, value in filters.items(): query = query.where(field, "==", value)\<close>\<close>

fun apply_filters ::
  "('q, 'd, 'a) firestore \<Rightarrow> 'q \<Rightarrow> (string \<times> 'a pyval) list \<Rightarrow> exn + 'q" where
  "apply_filters db query [] = Inr query"
| "apply_filters db query ((field, value) # rest) =
     (case where_eq db query field value of
        Inl e \<Rightarrow> Inl e
      | Inr filtered \<Rightarrow> apply_filters db filtered rest)"

text \<open>\<open>{"id": doc.id, **doc.to_dict()}\<close>\<close>

definition id_and_fields :: "('q, 'd, 'a) firestore \<Rightarrow> 'd \<Rightarrow> (string \<times> 'a pyval) list" where
  "id_and_fields db doc =
     fold (\<lambda>(k, v). AList.update k v) (to_dict db doc) [(''id'', PyStr (doc_id db doc))]"

text \<open>
  The loop \<open>for doc in collection_docs\<close>, appending to \<open>results\<close>: \<open>docs\<close> are the documents
  the stream has still to yield and \<open>raised\<close> is what it raises after them. The list
  comprehension reads the stream of the subcollection to its end.
\<close>

fun join_loop ::
  "('q, 'd, 'a) firestore \<Rightarrow> string \<Rightarrow> (string \<times> 'a pyval) list \<Rightarrow> 'd list \<Rightarrow> exn option
     \<Rightarrow> (string \<times> 'a pyval) list list \<Rightarrow> exn + (string \<times> 'a pyval) list list" where
  "join_loop db subcollection_name subcollection_filters [] raised results =
     (case raised of None \<Rightarrow> Inr results | Some e \<Rightarrow> Inl e)"
| "join_loop db subcollection_name subcollection_filters (doc # docs) raised results =
     (let doc_data = id_and_fields db doc
      in case doc_collection db doc subcollection_name of
           Inl e \<Rightarrow> Inl e
         | Inr sub_collection \<Rightarrow>
             (case apply_filters db sub_collection subcollection_filters of
                Inl e \<Rightarrow> Inl e
              | Inr sub_query \<Rightarrow>
                  (case stream db sub_query of
                     (sub_docs, Some e) \<Rightarrow> Inl e
                   | (sub_docs, None) \<Rightarrow>
                       (let sub_data = map (\<lambda>s. PyDict (id_and_fields db s)) sub_docs
                        in if subcollection_filters = [] \<or> sub_data \<noteq> [] then
                             join_loop db subcollection_name subcollection_filters docs raised
                               (results
                                  @ [AList.update subcollection_name (PyList sub_data) doc_data])
                           else
                             join_loop db subcollection_name subcollection_filters docs raised
                               results))))"

text \<open>
  \<open>firestore.Client()\<close> raises (no credentials) or gives the client; its outcome is the
  first argument.
\<close>

definition query_firestore_with_subcollection ::
  "exn + ('q, 'd, 'a) firestore \<Rightarrow> string \<Rightarrow> string \<Rightarrow> (string \<times> 'a pyval) list
     \<Rightarrow> (string \<times> 'a pyval) list \<Rightarrow> exn + (string \<times> 'a pyval) list list" where
  "query_firestore_with_subcollection client collection_name subcollection_name
     collection_filters subcollection_filters =
     (case client of
        Inl e \<Rightarrow> Inl e
      | Inr db \<Rightarrow>
          (case collection db collection_name of
             Inl e \<Rightarrow> Inl e
           | Inr whole \<Rightarrow>
               (case apply_filters db whole collection_filters of
                  Inl e \<Rightarrow> Inl e
                | Inr query \<Rightarrow>
                    (case stream db query of
                       (collection_docs, raised) \<Rightarrow>
                         join_loop db subcollection_name subcollection_filters collection_docs
                           raised []))))"

definition startswith :: "string \<Rightarrow> string \<Rightarrow> bool" where
  "startswith s p = (take (length p) s = p)"

text \<open>The loop over \<open>request.args.items()\<close> filling the two filter dictionaries.\<close>

fun filters_loop ::
  "(string \<times> string) list \<Rightarrow> (string \<times> 'a pyval) list \<Rightarrow> (string \<times> 'a pyval) list
     \<Rightarrow> (string \<times> 'a pyval) list \<times> (string \<times> 'a pyval) list" where
  "filters_loop [] collection_filters subcollection_filters =
     (collection_filters, subcollection_filters)"
| "filters_loop ((key, value) # rest) collection_filters subcollection_filters =
     (if startswith key ''collection_'' then
        filters_loop rest
          (AList.update (drop (length ''collection_'') key) (PyStr value) collection_filters)
          subcollection_filters
      else if startswith key ''subcollection_'' then
        filters_loop rest collection_filters
          (AList.update (drop (length ''subcollection_'') key) (PyStr value) subcollection_filters)
      else filters_loop rest collection_filters subcollection_filters)"

text \<open>
  The view before decoration. \<open>jsonify\<close> raises \<open>TypeError\<close> on a body holding a value JSON
  cannot encode (bytes, for one): \<open>jsonify_raises\<close>, a parameter, gives the exception raised
  on the body of the results, if any. The body of an error holds strings only.
\<close>

definition query_collection_with_subcollection_view ::
  "exn + ('q, 'd, 'a) firestore \<Rightarrow> ('a pyval \<Rightarrow> exn option) \<Rightarrow> request \<Rightarrow> string \<times> string
     \<Rightarrow> 'a response" where
  "query_collection_with_subcollection_view client jsonify_raises request view_args =
     (case view_args of
        (collection_name, subcollection_name) \<Rightarrow>
          (case filters_loop (args_items request) [] [] of
             (collection_filters, subcollection_filters) \<Rightarrow>
               (case query_firestore_with_subcollection client collection_name subcollection_name
                       collection_filters subcollection_filters of
                  Inr results \<Rightarrow>
                    (let body = PyDict [(''status'', PyStr ''success''),
                                        (''data'', PyList (map PyDict results))]
                     in case jsonify_raises body of
                          None \<Rightarrow> (body, 200)
                        | Some e \<Rightarrow>
                            (PyDict [(''status'', PyStr ''error''), (''error'', PyStr (str e))],
                             500))
                | Inl e \<Rightarrow>
                    (PyDict [(''status'', PyStr ''error''), (''error'', PyStr (str e))], 500))))"

definition query_collection_with_subcollection_route ::
  "(string \<Rightarrow> string option) \<Rightarrow> exn + ('q, 'd, 'a) firestore \<Rightarrow> ('a pyval \<Rightarrow> exn option)
     \<Rightarrow> request \<Rightarrow> string \<Rightarrow> string \<Rightarrow> 'a response" where
  "query_collection_with_subcollection_route getenv client jsonify_raises request collection_name
     subcollection_name =
     require_api_key getenv request
       (query_collection_with_subcollection_view client jsonify_raises request)
       (collection_name, subcollection_name)"

section \<open>The results of the loops, stated without the loops\<close>

text \<open>
  The definitions of this section are not translations of program text. They describe the
  message list and the joined records directly, and the theorems below prove that the loops
  of the program compute them.
\<close>

definition system_message :: "'a pyval" where
  "system_message =
     PyDict [(''role'', PyStr ''system''),
             (''content'', PyStr ''You are a helpful assistant for email and document data extraction.'')]"

definition template_message :: "'a pyval" where
  "template_message = PyDict [(''role'', PyStr ''user''), (''content'', PyStr PROMPT_TEMPLATE)]"

definition image_message :: "attachment \<Rightarrow> 'a pyval" where
  "image_message a =
     PyDict
       [(''role'', PyStr ''user''),
        (''content'', PyList
          [PyDict [(''type'', PyStr ''text''), (''text'', PyStr (''Attachment: '' @ filename a))],
           PyDict [(''type'', PyStr ''image_url''),
                   (''image_url'', PyDict
                     [(''url'', PyStr (''data:image/jpeg;base64,'' @ content a))])]])]"

text \<open>The lines of the mail summary for the attachment numbered \<open>i\<close>.\<close>

fun attachment_text :: "nat \<times> attachment \<Rightarrow> string" where
  "attachment_text (i, a) =
     ''Attachment '' @ str_nat i @ '': '' @ filename a @ ''\<newline>''
       @ (if is_image a then [] else ''Content: '' @ content a @ ''\<newline>\<newline>'')"

definition summary_text :: "string \<Rightarrow> attachment list \<Rightarrow> string" where
  "summary_text mail_id atts =
     ''Mail ID: '' @ mail_id @ ''\<newline>\<newline>''
       @ (if atts = [] then ''This email has no attachments.\<newline>''
          else ''This email has '' @ str_nat (length atts) @ '' attachment(s):\<newline>\<newline>''
                 @ concat (map attachment_text (enumerate 1 atts)))"

definition summary_message :: "string \<Rightarrow> attachment list \<Rightarrow> 'a pyval" where
  "summary_message mail_id atts =
     PyDict [(''role'', PyStr ''user''), (''content'', PyStr (summary_text mail_id atts))]"

text \<open>
  The parents fetched: the documents the filtered query on the collection yields, when no
  call raises.
\<close>

definition fetched_parents ::
  "('q, 'd, 'a) firestore \<Rightarrow> string \<Rightarrow> (string \<times> 'a pyval) list \<Rightarrow> exn + 'd list" where
  "fetched_parents db collection_name collection_filters =
     (case collection db collection_name of
        Inl e \<Rightarrow> Inl e
      | Inr whole \<Rightarrow>
          (case apply_filters db whole collection_filters of
             Inl e \<Rightarrow> Inl e
           | Inr query \<Rightarrow>
               (case stream db query of
                  (docs, None) \<Rightarrow> Inr docs
                | (docs, Some e) \<Rightarrow> Inl e)))"

text \<open>
  The children of a parent matching the child filters: the documents the filtered query on
  its subcollection yields, when no call raises. With no filter this is the query on the
  whole subcollection.
\<close>

definition matching_children ::
  "('q, 'd, 'a) firestore \<Rightarrow> string \<Rightarrow> (string \<times> 'a pyval) list \<Rightarrow> 'd \<Rightarrow> exn + 'd list" where
  "matching_children db subcollection_name subcollection_filters parent =
     (case doc_collection db parent subcollection_name of
        Inl e \<Rightarrow> Inl e
      | Inr sub_collection \<Rightarrow>
          (case apply_filters db sub_collection subcollection_filters of
             Inl e \<Rightarrow> Inl e
           | Inr sub_query \<Rightarrow>
               (case stream db sub_query of
                  (docs, None) \<Rightarrow> Inr docs
                | (docs, Some e) \<Rightarrow> Inl e)))"

definition children_of ::
  "('q, 'd, 'a) firestore \<Rightarrow> string \<Rightarrow> (string \<times> 'a pyval) list \<Rightarrow> 'd \<Rightarrow> 'd list" where
  "children_of db subcollection_name subcollection_filters parent =
     (case matching_children db subcollection_name subcollection_filters parent of
        Inr docs \<Rightarrow> docs
      | Inl e \<Rightarrow> [])"

text \<open>The joined record of a parent with the children given.\<close>

definition joined_record ::
  "('q, 'd, 'a) firestore \<Rightarrow> string \<Rightarrow> 'd \<Rightarrow> 'd list \<Rightarrow> (string \<times> 'a pyval) list" where
  "joined_record db subcollection_name parent children =
     AList.update subcollection_name (PyList (map (\<lambda>s. PyDict (id_and_fields db s)) children))
       (id_and_fields db parent)"

text \<open>
  A client over documents held in memory, for running the query on given data. Every call
  on it succeeds and a filter compares a top-level field; it is one client among those the
  theorems are about, not a description of Firestore.
\<close>

datatype 'a document =
  Document (stored_id: string) (stored_fields: "(string \<times> 'a pyval) list")
    (stored_collections: "(string \<times> 'a document list) list")

definition memory_client ::
  "(string \<times> 'a document list) list \<Rightarrow> ('a document list, 'a document, 'a) firestore" where
  "memory_client colls =
     \<lparr>collection = (\<lambda>name. Inr (case map_of colls name of None \<Rightarrow> [] | Some docs \<Rightarrow> docs)),
      where_eq = (\<lambda>query field value.
        Inr (filter (\<lambda>doc. map_of (stored_fields doc) field = Some value) query)),
      stream = (\<lambda>query. (query, None)),
      doc_id = stored_id,
      to_dict = stored_fields,
      doc_collection = (\<lambda>doc name.
        Inr (case map_of (stored_collections doc) name of None \<Rightarrow> [] | Some docs \<Rightarrow> docs))\<rparr>"

section \<open>Properties of the Content Loader\<close>

subsection \<open>Base64 decoding inverts encoding\<close>

lemma b64_index_from_nth:
  "distinct xs \<Longrightarrow> i < length xs \<Longrightarrow> b64_index_from k xs (xs ! i) = Some (k + i)"
proof (induction xs arbitrary: i k)
  case Nil
  then show ?case by simp
next
  case (Cons x xs)
  show ?case
  proof (cases i)
    case 0
    then show ?thesis by simp
  next
    case (Suc j)
    with Cons.prems have "xs ! j \<in> set xs" "x \<notin> set xs" "distinct xs" "j < length xs" by auto
    then have "x \<noteq> xs ! j" by auto
    with Cons.IH [of j "Suc k"] \<open>distinct xs\<close> \<open>j < length xs\<close> Suc show ?thesis by simp
  qed
qed

lemma length_b64_alphabet: "length b64_alphabet = 64"
  by (simp add: b64_alphabet_def)

lemma distinct_b64_alphabet: "distinct b64_alphabet"
  by (simp add: b64_alphabet_def)

lemma pad_notin_b64_alphabet: "CHR ''='' \<notin> set b64_alphabet"
  by (simp add: b64_alphabet_def)

lemma b64_index_char: "i < 64 \<Longrightarrow> b64_index (b64_char i) = Some i"
  using b64_index_from_nth [OF distinct_b64_alphabet, of i 0]
  by (simp add: b64_index_def b64_char_def length_b64_alphabet)

lemma b64_char_not_pad: "b64_char i \<noteq> CHR ''=''"
proof -
  have "b64_char i \<in> set b64_alphabet"
    by (simp add: b64_char_def length_b64_alphabet)
  with pad_notin_b64_alphabet show ?thesis by auto
qed

lemma sextet_hi: "(x::nat) < 256 \<Longrightarrow> x div 4 < 64"
  by simp

lemma sextet_mid: "(y::nat) < 256 \<Longrightarrow> x mod 4 * 16 + y div 16 < 64"
proof -
  assume "y < 256"
  then have "y div 16 < 16" by simp
  moreover have "x mod 4 < 4" by simp
  ultimately show ?thesis by linarith
qed

lemma sextet_mid2: "(z::nat) < 256 \<Longrightarrow> y mod 16 * 4 + z div 64 < 64"
proof -
  assume "z < 256"
  then have "z div 64 < 4" by simp
  moreover have "y mod 16 < 16" by simp
  ultimately show ?thesis by linarith
qed

lemma sextet_pad1: "(x::nat) mod 4 * 16 < 64"
proof -
  have "x mod 4 < 4" by simp
  then show ?thesis by linarith
qed

lemma sextet_pad2: "(y::nat) mod 16 * 4 < 64"
proof -
  have "y mod 16 < 16" by simp
  then show ?thesis by linarith
qed

lemma join_hi: "(x::nat) div 4 * 4 + (x mod 4 * 16 + r) div 16 = x + r div 16"
  by simp

lemma join_mid: "(y::nat) < 256 \<Longrightarrow> (x mod 4 * 16 + y div 16) mod 16 * 16 + (y mod 16 * 4 + r) div 4 = y + r div 4"
proof -
  assume "y < 256"
  then have "y div 16 < 16" by simp
  then have "(x mod 4 * 16 + y div 16) mod 16 = y div 16" by simp
  then show ?thesis by simp
qed

lemma join_lo: "(z::nat) < 256 \<Longrightarrow> (y mod 16 * 4 + z div 64) mod 4 * 64 + z mod 64 = z"
proof -
  assume "z < 256"
  then have "z div 64 < 4" by simp
  then have "(y mod 16 * 4 + z div 64) mod 4 = z div 64" by simp
  then show ?thesis by simp
qed


lemma unat_byte_less: "unat (a :: byte) < 256"
  using unsigned_less [of a] by simp

lemma b64encode_example: "b64encode [0xFF, 0xD8, 0x00, 0x41] = ''/9gAQQ==''"
  by (simp add: b64_char_def b64_alphabet_def)

lemma b64decode_example: "b64decode ''/9gAQQ=='' = Some [0xFF, 0xD8, 0x00, 0x41]"
  by (simp add: b64_index_def b64_alphabet_def)

lemma b64decode_b64encode: "b64decode (b64encode bs) = Some bs"
proof (induction bs rule: b64encode.induct)
  case 1
  show ?case by simp
next
  case (2 a)
  have "unat a < 256" by (rule unat_byte_less)
  then show ?case
    using join_hi [of "unat a" 0]
    by (simp add: Let_def b64_index_char sextet_hi sextet_pad1 b64_char_not_pad)
next
  case (3 a b)
  have a: "unat a < 256" and b: "unat b < 256" by (rule unat_byte_less)+
  show ?case
    using join_hi [of "unat a" "unat b"] join_mid [OF b, of "unat a" 0]
    by (simp add: Let_def b64_index_char sextet_hi [OF a] sextet_mid [OF b] sextet_pad2
        b64_char_not_pad)
next
  case (4 a b c rest)
  have a: "unat a < 256" and b: "unat b < 256" and c: "unat c < 256"
    by (rule unat_byte_less)+
  show ?case
    using join_hi [of "unat a" "unat b"] join_mid [OF b, of "unat a" "unat c"]
      join_lo [OF c, of "unat b"] 4
    by (simp add: Let_def b64_index_char sextet_hi [OF a] sextet_mid [OF b] sextet_mid2 [OF c]
        b64_char_not_pad)
qed

subsection \<open>The classifier and \<open>process_file_content\<close>\<close>

lemma classifier_examples:
  "is_allowed_file ''Report.PDF''" "\<not> is_image_file ''Report.PDF''"
  "is_image_file ''photo.JpEg''" "\<not> is_allowed_file ''archive.zip''"
  "\<not> is_allowed_file ''png''"
  by (simp_all add: is_allowed_file_def is_image_file_def ALLOWED_EXTENSIONS_def
      IMAGE_EXTENSIONS_def endswith_def lower_def lower_char_def)

lemma length_lower: "length (lower s) = length s"
  by (simp add: lower_def)

lemma lower_append: "lower (p @ s) = lower p @ lower s"
  by (simp add: lower_def)

lemma lower_drop: "lower (drop n s) = drop n (lower s)"
  by (simp add: lower_def drop_map)

lemma endswith_lower_iff:
  "endswith (lower f) ext \<longleftrightarrow> (\<exists>p s. f = p @ s \<and> lower s = ext)"
proof
  assume h: "endswith (lower f) ext"
  let ?n = "length f - length ext"
  have "f = take ?n f @ drop ?n f" by simp
  moreover from h have "lower (drop ?n f) = ext"
    by (simp add: endswith_def lower_drop length_lower)
  ultimately show "\<exists>p s. f = p @ s \<and> lower s = ext" by blast
next
  assume "\<exists>p s. f = p @ s \<and> lower s = ext"
  then obtain p s where f: "f = p @ s" and s: "lower s = ext" by blast
  from s have "length ext = length s" using length_lower [of s] by simp
  with f s show "endswith (lower f) ext"
    by (simp add: endswith_def lower_append length_lower)
qed

lemma is_image_file_iff:
  "is_image_file f \<longleftrightarrow> (\<exists>ext\<in>set IMAGE_EXTENSIONS. \<exists>p s. f = p @ s \<and> lower s = ext)"
  by (simp only: is_image_file_def list_ex_iff endswith_lower_iff)

lemma is_allowed_file_iff:
  "is_allowed_file f \<longleftrightarrow> (\<exists>ext\<in>set ALLOWED_EXTENSIONS. \<exists>p s. f = p @ s \<and> lower s = ext)"
  by (simp only: is_allowed_file_def list_ex_iff endswith_lower_iff)

lemma image_extensions_allowed: "set IMAGE_EXTENSIONS \<subseteq> set ALLOWED_EXTENSIONS"
  by (simp add: IMAGE_EXTENSIONS_def ALLOWED_EXTENSIONS_def)

lemma is_image_imp_allowed: "is_image_file f \<Longrightarrow> is_allowed_file f"
  using image_extensions_allowed by (auto simp: is_image_file_def is_allowed_file_def list_ex_iff)

lemma process_file_content_image:
  "is_image_file (secure_filename name) \<Longrightarrow>
   process_file_content secure_filename (FileStorage name (Inr bs)) =
     (Some \<lparr>filename = secure_filename name, content = b64encode bs, is_image = True\<rparr>, None)"
  by (simp add: process_file_content_def Let_def is_image_imp_allowed)

lemma process_file_content_text:
  "is_allowed_file (secure_filename name) \<Longrightarrow> \<not> is_image_file (secure_filename name) \<Longrightarrow>
   utf8_valid bs \<Longrightarrow>
   process_file_content secure_filename (FileStorage name (Inr bs)) =
     (Some \<lparr>filename = secure_filename name, content = map (\<lambda>b. char_of (unat b)) bs,
            is_image = False\<rparr>, None)"
  by (simp add: process_file_content_def Let_def decode_utf8_def)

lemma process_file_content_undecodable:
  "is_allowed_file (secure_filename name) \<Longrightarrow> \<not> is_image_file (secure_filename name) \<Longrightarrow>
   \<not> utf8_valid bs \<Longrightarrow>
   process_file_content secure_filename (FileStorage name (Inr bs)) =
     (None, Some (''Could not decode file as UTF-8 text: '' @ secure_filename name))"
  by (simp add: process_file_content_def Let_def decode_utf8_def)


subsection \<open>UTF-8\<close>

lemma utf8_valid_examples:
  "utf8_valid [0x68, 0xC3, 0xA9, 0xE2, 0x82, 0xAC, 0xF0, 0x9F, 0x98, 0x80]"
  "\<not> utf8_valid [0xC0, 0x80]"
  "\<not> utf8_valid [0xED, 0xA0, 0x80]"
  "\<not> utf8_valid [0xF4, 0x90, 0x80, 0x80]"
  "\<not> utf8_valid [0xE2, 0x82]"
  by (simp_all add: is_cont_def)

lemma utf8_valid_ascii: "\<forall>b\<in>set bs. b \<le> 0x7F \<Longrightarrow> utf8_valid bs"
  by (induction bs) simp_all

lemma utf8_valid_no_FF: "utf8_valid bs \<Longrightarrow> 0xFF \<notin> set bs"
proof (induction bs rule: utf8_valid.induct)
  case 1
  then show ?case by simp
next
  case (2 b bs)
  then show ?case
    by (auto simp: is_cont_def split: if_splits list.splits)
qed


subsection \<open>The upload loop\<close>

lemma process_files_loop_append:
  "process_files_loop sf (xs @ ys) acc = process_files_loop sf ys (process_files_loop sf xs acc)"
  by (induction xs arbitrary: acc) (auto split: prod.splits)

lemma process_files_loop_dropped:
  "file_filename file = [] \<or> truthy (snd (process_file_content sf file)) \<Longrightarrow>
   process_files_loop sf (before @ file # after) acc = process_files_loop sf (before @ after) acc"
  by (auto simp: process_files_loop_append split: prod.splits)

lemma files_data_eq:
  "(if fs \<noteq> [] then process_files_loop sf fs [] else []) = process_files_loop sf fs []"
  by (cases fs) simp_all

lemma process_files_loaded:
  "form request = Inr fd \<Longrightarrow>
   process_files create json_loads sf request =
     (PyDict [(''status'', PyStr ''completed''),
              (''mail_id'', PyStr (case form_mail_id fd of Some m \<Rightarrow> m | None \<Rightarrow> ''mail_001'')),
              (''total_attachments'', PyInt (int (length (process_files_loop sf (files fd) [])))),
              (''result'', analyze_documents_with_openai create json_loads
                 (case form_mail_id fd of Some m \<Rightarrow> m | None \<Rightarrow> ''mail_001'')
                 (process_files_loop sf (files fd) []))], 200)"
  by (simp add: process_files_def Let_def files_data_eq)

subsection \<open>Claims about the Content Loader and the upload loop\<close>

text \<open>
  C4. An upload whose sanitized filename has an image extension always yields an attachment,
  whose \<open>content\<close> is the base64 text of the bytes read, and decoding that text gives the
  bytes back.
\<close>

theorem image_content_base64_round_trip:
  assumes "is_image_file (secure_filename name)"
  shows "\<exists>a. process_file_content secure_filename (FileStorage name (Inr bs)) = (Some a, None)
             \<and> content a = b64encode bs \<and> b64decode (content a) = Some bs"
  using assms by (simp add: process_file_content_image b64decode_b64encode)

theorem image_content_base64_round_trip_witness:
  "is_image_file ''scan.PNG''
   \<and> (\<exists>a. process_file_content (\<lambda>n. n) (FileStorage ''scan.PNG'' (Inr [0xFF, 0xD8, 0x00, 0x41]))
              = (Some a, None)
            \<and> content a = b64encode [0xFF, 0xD8, 0x00, 0x41]
            \<and> b64decode (content a) = Some [0xFF, 0xD8, 0x00, 0x41])"
proof -
  have h: "is_image_file ''scan.PNG''"
    by (simp add: is_image_file_def IMAGE_EXTENSIONS_def endswith_def lower_def lower_char_def)
  from image_content_base64_round_trip [of "\<lambda>n. n" "''scan.PNG''" "[0xFF, 0xD8, 0x00, 0x41]"] h
  show ?thesis by simp
qed

text \<open>
  C5. When the sanitized filename ends, ignoring case, with an allowed extension and the
  file is an image or its bytes are valid UTF-8, an attachment is produced, and its
  \<open>is_image\<close> flag is true exactly when the filename ends, ignoring case, with an image
  extension.
\<close>

theorem is_image_flag_matches_image_extensions:
  assumes "\<exists>ext\<in>set ALLOWED_EXTENSIONS. \<exists>p s. secure_filename name = p @ s \<and> lower s = ext"
    and "is_image_file (secure_filename name) \<or> utf8_valid bs"
  shows "\<exists>a. process_file_content secure_filename (FileStorage name (Inr bs)) = (Some a, None)
             \<and> (is_image a \<longleftrightarrow>
                  (\<exists>ext\<in>set IMAGE_EXTENSIONS. \<exists>p s. secure_filename name = p @ s \<and> lower s = ext))"
proof (cases "is_image_file (secure_filename name)")
  case True
  then show ?thesis
    by (simp add: process_file_content_image is_image_file_iff [symmetric])
next
  case False
  moreover from assms(1) have "is_allowed_file (secure_filename name)"
    by (simp only: is_allowed_file_iff)
  moreover from False assms(2) have "utf8_valid bs" by simp
  ultimately show ?thesis
    by (simp add: process_file_content_text is_image_file_iff [symmetric])
qed

theorem is_image_flag_matches_image_extensions_witness:
  "\<exists>a. process_file_content (\<lambda>n. n) (FileStorage ''Notes.TXT'' (Inr [0x68, 0x69])) = (Some a, None)
       \<and> (is_image a \<longleftrightarrow>
            (\<exists>ext\<in>set IMAGE_EXTENSIONS. \<exists>p s. ''Notes.TXT'' = p @ s \<and> lower s = ext))"
proof -
  have "is_allowed_file ''Notes.TXT''"
    by (simp add: is_allowed_file_def ALLOWED_EXTENSIONS_def endswith_def lower_def lower_char_def)
  then have h1: "\<exists>ext\<in>set ALLOWED_EXTENSIONS. \<exists>p s. ''Notes.TXT'' = p @ s \<and> lower s = ext"
    by (simp only: is_allowed_file_iff)
  have h2: "is_image_file ''Notes.TXT'' \<or> utf8_valid [0x68, 0x69]" by simp
  from is_image_flag_matches_image_extensions [of "\<lambda>n. n" "''Notes.TXT''" "[0x68, 0x69]"] h1 h2
  show ?thesis by simp
qed

text \<open>
  C6. For an allowed filename that is not an image, bytes that are not valid UTF-8, and in
  particular any bytes containing 0xFF, give the failure
  \<open>Could not decode file as UTF-8 text: <filename>\<close> and no attachment.
\<close>

theorem undecodable_text_is_a_failure:
  assumes "is_allowed_file (secure_filename name)"
    and "\<not> is_image_file (secure_filename name)"
    and "\<not> utf8_valid bs \<or> 0xFF \<in> set bs"
  shows "process_file_content secure_filename (FileStorage name (Inr bs)) =
           (None, Some (''Could not decode file as UTF-8 text: '' @ secure_filename name))"
proof -
  from assms(3) have "\<not> utf8_valid bs" using utf8_valid_no_FF by blast
  with assms(1,2) show ?thesis by (rule process_file_content_undecodable)
qed

theorem undecodable_text_is_a_failure_witness:
  "process_file_content (\<lambda>n. n) (FileStorage ''a.txt'' (Inr [0x68, 0xFF])) =
     (None, Some ''Could not decode file as UTF-8 text: a.txt'')"
proof -
  have h1: "is_allowed_file ''a.txt''"
    by (simp add: is_allowed_file_def ALLOWED_EXTENSIONS_def endswith_def lower_def lower_char_def)
  have h2: "\<not> is_image_file ''a.txt''"
    by (simp add: is_image_file_def IMAGE_EXTENSIONS_def endswith_def lower_def lower_char_def)
  have h3: "\<not> utf8_valid [0x68, 0xFF] \<or> 0xFF \<in> set [0x68, 0xFF :: byte]" by simp
  from undecodable_text_is_a_failure [of "\<lambda>n. n" "''a.txt''" "[0x68, 0xFF]"] h1 h2 h3
  show ?thesis by simp
qed



text \<open>
  C10. An uploaded file whose filename is empty is skipped, whatever its content and whatever
  \<open>secure_filename\<close> would make of it: the attachments collected and the whole response,
  \<open>total_attachments\<close> included, are those of the request without that file.
\<close>

theorem empty_filename_is_skipped:
  assumes "file_filename file = []"
  shows "process_files_loop secure_filename (before @ file # after) [] =
           process_files_loop secure_filename (before @ after) []
       \<and> process_files create json_loads secure_filename
             (request\<lparr>form := Inr \<lparr>form_mail_id = m, files = before @ file # after\<rparr>\<rparr>) =
           process_files create json_loads secure_filename
             (request\<lparr>form := Inr \<lparr>form_mail_id = m, files = before @ after\<rparr>\<rparr>)"
proof -
  from assms have loop: "process_files_loop secure_filename (before @ file # after) [] =
      process_files_loop secure_filename (before @ after) []"
    by (simp add: process_files_loop_dropped)
  show ?thesis
    by (simp add: loop process_files_loaded)
qed

theorem empty_filename_is_skipped_witness:
  "process_files_loop (\<lambda>n. n)
     [FileStorage [] (Inr [0x68]), FileStorage ''a.png'' (Inr [])] [] =
   [Some \<lparr>filename = ''a.png'', content = [], is_image = True\<rparr>]"
proof -
  have h: "file_filename (FileStorage [] (Inr [0x68])) = []" by simp
  have img: "is_image_file ''a.png''"
    by (simp add: is_image_file_def IMAGE_EXTENSIONS_def endswith_def lower_def lower_char_def)
  have base: "process_files_loop (\<lambda>n. n) [FileStorage ''a.png'' (Inr [])] [] =
      [Some \<lparr>filename = ''a.png'', content = [], is_image = True\<rparr>]"
    using process_file_content_image [of "\<lambda>n. n" "''a.png''" "[]"] img by simp
  from empty_filename_is_skipped
      [OF h, of "\<lambda>n. n" "[]" "[FileStorage ''a.png'' (Inr [])]"]
  have "process_files_loop (\<lambda>n. n)
      ([] @ FileStorage [] (Inr [0x68]) # [FileStorage ''a.png'' (Inr [])]) [] =
      process_files_loop (\<lambda>n. n) ([] @ [FileStorage ''a.png'' (Inr [])]) []"
    by (rule conjunct1)
  with base show ?thesis by (simp only: append_Nil)
qed

section \<open>Properties of the assembler, the endpoints and the query\<close>

subsection \<open>The message list\<close>

lemma attachments_loop_all_attachments:
  "attachments_loop i (map Some atts) msgs ec =
     Inr (msgs @ map image_message (filter is_image atts),
          ec @ concat (map attachment_text (enumerate i atts)))"
proof (induction atts arbitrary: i msgs ec)
  case Nil
  show ?case by simp
next
  case (Cons a atts)
  show ?case
    by (simp add: Let_def Cons.IH image_message_def)
qed

lemma build_messages_all_attachments:
  "build_messages mail_id (map Some atts) =
     Inr ([system_message, template_message] @ map image_message (filter is_image atts)
          @ [summary_message mail_id atts])"
  by (simp add: build_messages_def Let_def attachments_loop_all_attachments system_message_def
      template_message_def summary_message_def summary_text_def)

lemma str_nat_digit: "n < 10 \<Longrightarrow> str_nat n = [''0123456789'' ! n]"
  by (simp add: str_nat.simps digit_char_def)

subsection \<open>The analysis and the response of \<open>/process\<close>\<close>

lemma analyze_invalid_json:
  "build_messages mail_id files_data = Inr sent \<Longrightarrow>
   create \<lparr>model = ''gpt-4o-mini'', messages = sent, max_tokens = 4000, temperature = 0\<rparr>
     = Inr (Some reply # others) \<Longrightarrow>
   json_loads reply = Inl (JSONDecodeError msg) \<Longrightarrow>
   analyze_documents_with_openai create json_loads mail_id files_data =
     PyDict [(''mail_id'', PyStr mail_id), (''extracted_data'', PyDict []),
             (''status'', PyStr ''error''), (''error'', PyStr (''JSON parsing error: '' @ msg))]"
  by (simp add: analyze_documents_with_openai_def extract_data_def)

lemma process_files_status: "snd (process_files create json_loads sf request) \<in> {200, 500}"
  by (simp add: process_files_def Let_def split: sum.split)

lemma process_files_headers:
  "process_files create json_loads sf (request\<lparr>headers := h\<rparr>) =
   process_files create json_loads sf request"
  by (simp add: process_files_def)

subsection \<open>The API key\<close>

lemma require_api_key_rejects:
  "getenv ''API_KEY'' = Some secret \<Longrightarrow> secret \<noteq> [] \<Longrightarrow>
   headers request ''X-API-Key'' \<noteq> Some secret \<Longrightarrow>
   require_api_key getenv request func view_args =
     (PyDict [(''status'', PyStr ''error''), (''error'', PyStr ''Invalid API key'')], 401)"
  by (simp add: require_api_key_def)

lemma require_api_key_disabled:
  "getenv ''API_KEY'' = None \<or> getenv ''API_KEY'' = Some [] \<Longrightarrow>
   require_api_key getenv request func view_args = func view_args"
  by (auto simp: require_api_key_def)

lemma view_headers:
  "query_collection_with_subcollection_view client jsonify_raises (request\<lparr>headers := h\<rparr>)
     view_args =
   query_collection_with_subcollection_view client jsonify_raises request view_args"
  by (simp add: query_collection_with_subcollection_view_def)

subsection \<open>The collection query\<close>

lemma join_loop_child_query_raises:
  "matching_children db sn sf doc = Inl e \<Longrightarrow> join_loop db sn sf (doc # docs) raised acc = Inl e"
  by (auto simp: matching_children_def Let_def split: sum.splits prod.splits option.splits)

lemma join_loop_child_query_returns:
  "matching_children db sn sf doc = Inr cs \<Longrightarrow>
   join_loop db sn sf (doc # docs) raised acc =
     join_loop db sn sf docs raised
       (if sf = [] \<or> cs \<noteq> [] then acc @ [joined_record db sn doc cs] else acc)"
  by (auto simp: matching_children_def joined_record_def Let_def
      split: sum.splits prod.splits option.splits)

lemma join_loop_Inr_iff:
  "join_loop db sn sf docs raised acc = Inr results \<longleftrightarrow>
     raised = None
     \<and> (\<forall>p\<in>set docs. \<exists>cs. matching_children db sn sf p = Inr cs)
     \<and> results = acc @ map (\<lambda>p. joined_record db sn p (children_of db sn sf p))
                         (filter (\<lambda>p. sf = [] \<or> children_of db sn sf p \<noteq> []) docs)"
proof (induction docs arbitrary: acc)
  case Nil
  show ?case by (cases raised) auto
next
  case (Cons doc docs)
  show ?case
  proof (cases "matching_children db sn sf doc")
    case (Inl e)
    then show ?thesis by (simp add: join_loop_child_query_raises del: join_loop.simps)
  next
    case (Inr cs)
    then have "children_of db sn sf doc = cs" by (simp add: children_of_def)
    with Inr show ?thesis
      by (auto simp: join_loop_child_query_returns Cons.IH simp del: join_loop.simps)
  qed
qed

lemma query_firestore_with_subcollection_Inr_iff:
  "query_firestore_with_subcollection client cn sn cf sf = Inr results \<longleftrightarrow>
     (\<exists>db parents. client = Inr db \<and> fetched_parents db cn cf = Inr parents
        \<and> (\<forall>p\<in>set parents. \<exists>cs. matching_children db sn sf p = Inr cs)
        \<and> results = map (\<lambda>p. joined_record db sn p (children_of db sn sf p))
                       (filter (\<lambda>p. sf = [] \<or> children_of db sn sf p \<noteq> []) parents))"
  by (auto simp: query_firestore_with_subcollection_def fetched_parents_def join_loop_Inr_iff
      split: sum.splits prod.splits option.splits)

lemma matching_children_unfiltered:
  "matching_children db sn [] parent = Inr cs \<longleftrightarrow>
     (\<exists>whole. doc_collection db parent sn = Inr whole \<and> stream db whole = (cs, None))"
  by (auto simp: matching_children_def split: sum.splits prod.splits option.splits)

lemma view_filter_raises:
  "client = Inr db \<Longrightarrow> collection db c = Inr whole \<Longrightarrow>
   args_items request = [(''collection_'' @ field, v)] \<Longrightarrow>
   where_eq db whole field (PyStr v) = Inl e \<Longrightarrow>
   query_collection_with_subcollection_view client jsonify_raises request (c, s) =
     (PyDict [(''status'', PyStr ''error''), (''error'', PyStr (str e))], 500)"
  by (simp add: query_collection_with_subcollection_view_def startswith_def
      query_firestore_with_subcollection_def)

subsection \<open>Claims about the Prompt Assembler and the Completion Invoker\<close>

text \<open>
  C1, as the claim states it, fails: with one image attachment the image message is the
  third message and the mail summary the fourth and last, so the summary is not the first
  message after the template.
\<close>

theorem summary_first_counterexample:
  "(build_messages ''m1'' [Some \<lparr>filename = ''a.png'', content = ''QUJD'', is_image = True\<rparr>]
      :: exn + unit pyval list) =
     Inr [system_message,
          template_message,
          PyDict [(''role'', PyStr ''user''),
                  (''content'', PyList
                    [PyDict [(''type'', PyStr ''text''), (''text'', PyStr ''Attachment: a.png'')],
                     PyDict [(''type'', PyStr ''image_url''),
                             (''image_url'', PyDict
                               [(''url'', PyStr ''data:image/jpeg;base64,QUJD'')])]])],
          PyDict [(''role'', PyStr ''user''),
                  (''content'', PyStr (''Mail ID: m1\<newline>\<newline>''
                     @ ''This email has 1 attachment(s):\<newline>\<newline>''
                     @ ''Attachment 1: a.png\<newline>''))]]
   \<and> (build_messages ''m1'' [Some \<lparr>filename = ''a.png'', content = ''QUJD'', is_image = True\<rparr>]
      :: exn + unit pyval list) \<noteq>
     Inr [system_message,
          template_message,
          PyDict [(''role'', PyStr ''user''),
                  (''content'', PyStr (''Mail ID: m1\<newline>\<newline>''
                     @ ''This email has 1 attachment(s):\<newline>\<newline>''
                     @ ''Attachment 1: a.png\<newline>''))],
          PyDict [(''role'', PyStr ''user''),
                  (''content'', PyList
                    [PyDict [(''type'', PyStr ''text''), (''text'', PyStr ''Attachment: a.png'')],
                     PyDict [(''type'', PyStr ''image_url''),
                             (''image_url'', PyDict
                               [(''url'', PyStr ''data:image/jpeg;base64,QUJD'')])]])]]"
  by (simp add: build_messages_def Let_def str_nat_digit system_message_def template_message_def)

text \<open>
  C1, amended. For every mail id and every list of attachments the messages are, in this
  order: the system instruction, the task template, one image message for each image
  attachment in upload order, and last the mail summary, which holds the mail id, the number
  of attachments and, for each attachment in upload order, its name and, unless it is an
  image, its text.
\<close>

theorem messages_order:
  "build_messages mail_id (map Some atts) =
     Inr ([system_message, template_message]
          @ map image_message (filter is_image atts)
          @ [summary_message mail_id atts])"
  by (rule build_messages_all_attachments)

theorem messages_order_witness:
  "(build_messages ''m1''
      (map Some [\<lparr>filename = ''n.txt'', content = ''hi'', is_image = False\<rparr>,
                 \<lparr>filename = ''a.png'', content = ''QUJD'', is_image = True\<rparr>])
      :: exn + unit pyval list) =
     Inr [system_message,
          template_message,
          image_message \<lparr>filename = ''a.png'', content = ''QUJD'', is_image = True\<rparr>,
          PyDict [(''role'', PyStr ''user''),
                  (''content'', PyStr (''Mail ID: m1\<newline>\<newline>''
                     @ ''This email has 2 attachment(s):\<newline>\<newline>''
                     @ ''Attachment 1: n.txt\<newline>Content: hi\<newline>\<newline>''
                     @ ''Attachment 2: a.png\<newline>''))]]"
  using messages_order [of "''m1''"
      "[\<lparr>filename = ''n.txt'', content = ''hi'', is_image = False\<rparr>,
        \<lparr>filename = ''a.png'', content = ''QUJD'', is_image = True\<rparr>]"]
  by (simp add: summary_message_def summary_text_def str_nat_digit image_message_def)

text \<open>
  C3, as the claim states it, fails. \<open>json.loads\<close> accepts the reply \<open>NaN\<close>, which is not
  JSON, and returns the float nan: the result record then has status \<open>success\<close>. On a reply
  of 100000 opening brackets, which is not JSON either, it raises \<open>RecursionError\<close>, not
  \<open>JSONDecodeError\<close>: the result record has status \<open>error\<close>, but its error is the bare
  message of the exception, without \<open>JSON parsing error: \<close>. In both instances \<open>json.loads\<close>
  is given at the reply only, and \<open>PyOther ''nan''\<close> stands for the float nan.
\<close>

theorem not_json_reply_counterexample:
  "analyze_documents_with_openai (\<lambda>r. Inr [Some ''NaN''])
     (\<lambda>s. if s = ''NaN'' then Inr (PyOther ''nan'')
          else Inl (JSONDecodeError ''Expecting value: line 1 column 1 (char 0)''))
     ''m1'' [] =
   PyDict [(''mail_id'', PyStr ''m1''), (''extracted_data'', PyOther ''nan''),
           (''status'', PyStr ''success'')]
   \<and> analyze_documents_with_openai (\<lambda>r. Inr [Some (replicate 100000 (CHR ''[''))])
     (\<lambda>s. if s = replicate 100000 (CHR ''['')
          then Inl (Exception (''maximum recursion depth exceeded while decoding ''
                 @ ''a JSON array from a unicode string''))
          else Inr (PyDict []))
     ''m1'' [] =
   (PyDict [(''mail_id'', PyStr ''m1''), (''extracted_data'', PyDict []),
            (''status'', PyStr ''error''),
            (''error'', PyStr (''maximum recursion depth exceeded while decoding ''
               @ ''a JSON array from a unicode string''))] :: string pyval)"
  by (simp add: analyze_documents_with_openai_def extract_data_def build_messages_def)

text \<open>
  C3, amended. When \<open>json.loads\<close> rejects the reply of the model to the messages sent by
  raising \<open>JSONDecodeError\<close> with the message \<open>msg\<close>, the result record has status \<open>error\<close>
  and the error \<open>JSON parsing error: msg\<close>, and \<open>/process\<close> answers with status 200 and that
  record under \<open>result\<close>.
\<close>

theorem invalid_json_reply_is_an_error_result:
  assumes "build_messages mail_id files_data = Inr sent"
    and "create \<lparr>model = ''gpt-4o-mini'', messages = sent, max_tokens = 4000, temperature = 0\<rparr>
           = Inr (Some reply # others)"
    and "json_loads reply = Inl (JSONDecodeError msg)"
  shows "analyze_documents_with_openai create json_loads mail_id files_data =
           PyDict [(''mail_id'', PyStr mail_id), (''extracted_data'', PyDict []),
                   (''status'', PyStr ''error''),
                   (''error'', PyStr (''JSON parsing error: '' @ msg))]
       \<and> (form request = Inr fd
            \<and> mail_id = (case form_mail_id fd of Some m \<Rightarrow> m | None \<Rightarrow> ''mail_001'')
            \<and> files_data = process_files_loop secure_filename (files fd) []
          \<longrightarrow> process_files create json_loads secure_filename request =
                (PyDict [(''status'', PyStr ''completed''),
                         (''mail_id'', PyStr mail_id),
                         (''total_attachments'', PyInt (int (length files_data))),
                         (''result'',
                          PyDict [(''mail_id'', PyStr mail_id), (''extracted_data'', PyDict []),
                                  (''status'', PyStr ''error''),
                                  (''error'', PyStr (''JSON parsing error: '' @ msg))])], 200))"
proof -
  note result = analyze_invalid_json
      [of mail_id files_data sent create reply others json_loads msg, OF assms]
  show ?thesis
  proof (intro conjI impI)
    show "analyze_documents_with_openai create json_loads mail_id files_data =
           PyDict [(''mail_id'', PyStr mail_id), (''extracted_data'', PyDict []),
                   (''status'', PyStr ''error''),
                   (''error'', PyStr (''JSON parsing error: '' @ msg))]"
      by (rule result)
  next
    assume h: "form request = Inr fd
            \<and> mail_id = (case form_mail_id fd of Some m \<Rightarrow> m | None \<Rightarrow> ''mail_001'')
            \<and> files_data = process_files_loop secure_filename (files fd) []"
    then have "form request = Inr fd" by simp
    from process_files_loaded [OF this, of create json_loads secure_filename] h result
    show "process_files create json_loads secure_filename request =
                (PyDict [(''status'', PyStr ''completed''),
                         (''mail_id'', PyStr mail_id),
                         (''total_attachments'', PyInt (int (length files_data))),
                         (''result'',
                          PyDict [(''mail_id'', PyStr mail_id), (''extracted_data'', PyDict []),
                                  (''status'', PyStr ''error''),
                                  (''error'', PyStr (''JSON parsing error: '' @ msg))])], 200)"
      by simp
  qed
qed

theorem invalid_json_reply_is_an_error_result_witness:
  "process_files (\<lambda>r. Inr [Some ''not json''])
     (\<lambda>s. Inl (JSONDecodeError ''Expecting value: line 1 column 1 (char 0)''))
     (\<lambda>n. n)
     \<lparr>headers = (\<lambda>k. None), args_items = [],
      form = Inr \<lparr>form_mail_id = Some ''m1'', files = []\<rparr>\<rparr> =
   (PyDict [(''status'', PyStr ''completed''),
            (''mail_id'', PyStr ''m1''),
            (''total_attachments'', PyInt 0),
            (''result'',
             PyDict [(''mail_id'', PyStr ''m1''), (''extracted_data'', PyDict []),
                     (''status'', PyStr ''error''),
                     (''error'', PyStr (''JSON parsing error: ''
                        @ ''Expecting value: line 1 column 1 (char 0)''))])] :: unit pyval, 200)"
proof -
  have sent: "build_messages ''m1'' [] =
      (Inr [system_message, template_message, summary_message ''m1'' []]
         :: exn + unit pyval list)"
    using build_messages_all_attachments [of "''m1''" "[]"] by simp
  have reply: "(\<lambda>r :: unit completion_request. Inr [Some ''not json''])
      \<lparr>model = ''gpt-4o-mini'',
       messages = [system_message, template_message, summary_message ''m1'' []],
       max_tokens = 4000, temperature = 0\<rparr> = (Inr (Some ''not json'' # []) :: exn + string option list)"
    by simp
  have bad: "(\<lambda>s. Inl (JSONDecodeError ''Expecting value: line 1 column 1 (char 0)'')) ''not json''
      = (Inl (JSONDecodeError ''Expecting value: line 1 column 1 (char 0)'') :: exn + unit pyval)"
    by simp
  from sent reply bad invalid_json_reply_is_an_error_result
      [of "''m1''" "[]" "[system_message, template_message, summary_message ''m1'' []]"
         "\<lambda>r. Inr [Some ''not json'']" "''not json''" "[]"
         "\<lambda>s. Inl (JSONDecodeError ''Expecting value: line 1 column 1 (char 0)'')
            :: exn + unit pyval"
         "''Expecting value: line 1 column 1 (char 0)''"
         "\<lparr>headers = (\<lambda>k. None), args_items = [],
           form = Inr \<lparr>form_mail_id = Some ''m1'', files = []\<rparr>\<rparr>"
         "\<lparr>form_mail_id = Some ''m1'', files = []\<rparr>" "\<lambda>n. n"]
  show ?thesis by simp
qed

subsection \<open>Claims about the API key\<close>

text \<open>
  C8. A secret is configured when \<open>API_KEY\<close> is set to a non-empty string. Then a request
  whose \<open>X-API-Key\<close> header is missing or differs from it gets status 401 and the body
  \<open>{status: error, error: Invalid API key}\<close>, whatever the view, the database and the
  rest of the request are. When \<open>API_KEY\<close> is unset or empty the decorated view is just the
  view, and its response does not depend on the headers.
\<close>

theorem api_key_check:
  "(getenv ''API_KEY'' = Some secret \<and> secret \<noteq> [] \<and> headers request ''X-API-Key'' \<noteq> Some secret
      \<longrightarrow> require_api_key getenv request func view_args =
            (PyDict [(''status'', PyStr ''error''), (''error'', PyStr ''Invalid API key'')], 401)
        \<and> query_collection_with_subcollection_route getenv client jsonify_raises request c s =
            (PyDict [(''status'', PyStr ''error''), (''error'', PyStr ''Invalid API key'')], 401))
   \<and> (getenv ''API_KEY'' = None \<or> getenv ''API_KEY'' = Some []
      \<longrightarrow> require_api_key getenv request func view_args = func view_args
        \<and> query_collection_with_subcollection_route getenv client jsonify_raises request c s =
            query_collection_with_subcollection_view client jsonify_raises request (c, s)
        \<and> query_collection_with_subcollection_route getenv client jsonify_raises
              (request\<lparr>headers := h\<rparr>) c s =
            query_collection_with_subcollection_route getenv client jsonify_raises request c s)"
  by (simp add: require_api_key_rejects require_api_key_disabled view_headers
      query_collection_with_subcollection_route_def)

theorem api_key_check_witness:
  "query_collection_with_subcollection_route
     (\<lambda>k. if k = ''API_KEY'' then Some ''s3cret'' else None) (Inr (memory_client []))
     (\<lambda>body. None)
     \<lparr>headers = (\<lambda>k. if k = ''X-API-Key'' then Some ''guess'' else None), args_items = [],
      form = Inl (Exception [])\<rparr> ''orders'' ''items'' =
   (PyDict [(''status'', PyStr ''error''), (''error'', PyStr ''Invalid API key'')] :: unit pyval, 401)
   \<and> query_collection_with_subcollection_route (\<lambda>k. None) (Inr (memory_client []))
     (\<lambda>body. None)
     \<lparr>headers = (\<lambda>k. if k = ''X-API-Key'' then Some ''guess'' else None), args_items = [],
      form = Inl (Exception [])\<rparr> ''orders'' ''items'' =
   (PyDict [(''status'', PyStr ''success''), (''data'', PyList [])] :: unit pyval, 200)"
proof -
  let ?request = "\<lparr>headers = (\<lambda>k. if k = ''X-API-Key'' then Some ''guess'' else None),
      args_items = [], form = Inl (Exception [])\<rparr>"
  let ?client = "Inr (memory_client []) ::
      exn + (unit document list, unit document, unit) firestore"
  have view: "query_collection_with_subcollection_view ?client (\<lambda>body. None) ?request
      (''orders'', ''items'') =
      (PyDict [(''status'', PyStr ''success''), (''data'', PyList [])] :: unit pyval, 200)"
    by (simp add: query_collection_with_subcollection_view_def
        query_firestore_with_subcollection_def memory_client_def)
  from api_key_check [of "\<lambda>k. if k = ''API_KEY'' then Some ''s3cret'' else None" "''s3cret''" ?request
      "\<lambda>u :: unit. health :: unit pyval \<times> nat" "()" ?client "\<lambda>body. None" "''orders''" "''items''"
      "\<lambda>k. None"]
  have "query_collection_with_subcollection_route
      (\<lambda>k. if k = ''API_KEY'' then Some ''s3cret'' else None) ?client (\<lambda>body. None) ?request
      ''orders'' ''items'' =
      (PyDict [(''status'', PyStr ''error''), (''error'', PyStr ''Invalid API key'')] :: unit pyval, 401)"
    by simp
  moreover from api_key_check [of "\<lambda>k. None" "''s3cret''" ?request
      "\<lambda>u :: unit. health :: unit pyval \<times> nat" "()" ?client "\<lambda>body. None" "''orders''" "''items''"
      "\<lambda>k. None"]
  have "query_collection_with_subcollection_route (\<lambda>k. None) ?client (\<lambda>body. None) ?request
      ''orders'' ''items'' =
      (query_collection_with_subcollection_view ?client (\<lambda>body. None) ?request
         (''orders'', ''items'') :: unit pyval \<times> nat)"
    by simp
  ultimately show ?thesis by (simp only: view simp_thms)
qed

text \<open>
  C9. The response of \<open>/process\<close> does not depend on the headers of the request, and
  \<open>process_files\<close> does not read the environment; its status is 200 or 500, never 401.
  The query route, by contrast, answers 401 to a wrong key when a secret is configured.
\<close>

theorem process_has_no_api_key_check:
  "process_files create json_loads secure_filename (request\<lparr>headers := h\<rparr>) =
     process_files create json_loads secure_filename request
   \<and> snd (process_files create json_loads secure_filename request) \<in> {200, 500}
   \<and> snd (process_files create json_loads secure_filename request) \<noteq> 401
   \<and> (getenv ''API_KEY'' = Some secret \<and> secret \<noteq> [] \<and> headers request ''X-API-Key'' \<noteq> Some secret
      \<longrightarrow> snd (query_collection_with_subcollection_route getenv client jsonify_raises request c s)
            = 401)"
proof -
  have "snd (process_files create json_loads secure_filename request) \<in> {200, 500}"
    by (rule process_files_status)
  then show ?thesis
    by (auto simp: process_files_headers require_api_key_rejects
        query_collection_with_subcollection_route_def)
qed

theorem process_has_no_api_key_check_witness:
  "process_files (\<lambda>r. Inl (Exception ''Connection error.''))
     (\<lambda>s. Inr (PyDict []) :: exn + unit pyval) (\<lambda>n. n)
     \<lparr>headers = (\<lambda>k. if k = ''X-API-Key'' then Some ''guess'' else None), args_items = [],
      form = Inr \<lparr>form_mail_id = None, files = []\<rparr>\<rparr> =
   process_files (\<lambda>r. Inl (Exception ''Connection error.''))
     (\<lambda>s. Inr (PyDict []) :: exn + unit pyval) (\<lambda>n. n)
     \<lparr>headers = (\<lambda>k. None), args_items = [], form = Inr \<lparr>form_mail_id = None, files = []\<rparr>\<rparr>
   \<and> snd (process_files (\<lambda>r. Inl (Exception ''Connection error.''))
            (\<lambda>s. Inr (PyDict []) :: exn + unit pyval) (\<lambda>n. n)
            \<lparr>headers = (\<lambda>k. None), args_items = [],
             form = Inr \<lparr>form_mail_id = None, files = []\<rparr>\<rparr>) = 200"
proof -
  let ?plain = "\<lparr>headers = (\<lambda>k. None), args_items = [],
      form = Inr \<lparr>form_mail_id = None, files = []\<rparr>\<rparr>"
  have status: "snd (process_files (\<lambda>r. Inl (Exception ''Connection error.''))
      (\<lambda>s. Inr (PyDict []) :: exn + unit pyval) (\<lambda>n. n) ?plain) = 200"
    by (simp add: process_files_def Let_def)
  from process_has_no_api_key_check [of "\<lambda>r. Inl (Exception ''Connection error.'')"
      "\<lambda>s. Inr (PyDict []) :: exn + unit pyval" "\<lambda>n. n"
      "\<lambda>k. if k = ''X-API-Key'' then Some ''guess'' else None" ?plain, THEN conjunct1]
  show ?thesis using status by simp
qed

subsection \<open>Claims about the collection query\<close>

text \<open>
  C2. Whenever the query returns results, they are, in the order fetched: with a non-empty
  child filter set, the joined records of exactly those fetched parents for which the
  filtered subcollection query yields at least one child, each with the children yielded;
  with an empty child filter set, the joined record of every fetched parent, each with all
  the documents its subcollection yields, however many.
\<close>

theorem parents_included:
  assumes "query_firestore_with_subcollection client collection_name subcollection_name
             collection_filters subcollection_filters = Inr results"
  shows "\<exists>db parents.
           client = Inr db
         \<and> fetched_parents db collection_name collection_filters = Inr parents
         \<and> (\<forall>p\<in>set parents.
               matching_children db subcollection_name subcollection_filters p =
                 Inr (children_of db subcollection_name subcollection_filters p))
         \<and> (subcollection_filters \<noteq> [] \<longrightarrow>
               results =
                 map (\<lambda>p. joined_record db subcollection_name p
                            (children_of db subcollection_name subcollection_filters p))
                   (filter (\<lambda>p. children_of db subcollection_name subcollection_filters p \<noteq> [])
                      parents))
         \<and> (subcollection_filters = [] \<longrightarrow>
               results =
                 map (\<lambda>p. joined_record db subcollection_name p
                            (children_of db subcollection_name [] p))
                   parents
             \<and> (\<forall>p\<in>set parents. \<exists>whole.
                   doc_collection db p subcollection_name = Inr whole
                 \<and> stream db whole = (children_of db subcollection_name [] p, None)))"
proof -
  from assms obtain db parents where db: "client = Inr db"
    and parents: "fetched_parents db collection_name collection_filters = Inr parents"
    and children: "\<forall>p\<in>set parents. \<exists>cs.
        matching_children db subcollection_name subcollection_filters p = Inr cs"
    and results: "results =
        map (\<lambda>p. joined_record db subcollection_name p
                   (children_of db subcollection_name subcollection_filters p))
          (filter (\<lambda>p. subcollection_filters = []
                     \<or> children_of db subcollection_name subcollection_filters p \<noteq> [])
             parents)"
    unfolding query_firestore_with_subcollection_Inr_iff by blast
  from children have each: "\<forall>p\<in>set parents.
      matching_children db subcollection_name subcollection_filters p =
        Inr (children_of db subcollection_name subcollection_filters p)"
    by (auto simp: children_of_def)
  have unfiltered: "subcollection_filters = [] \<longrightarrow> (\<forall>p\<in>set parents. \<exists>whole.
      doc_collection db p subcollection_name = Inr whole
      \<and> stream db whole = (children_of db subcollection_name [] p, None))"
    using each by (auto simp: matching_children_unfiltered)
  from results have "subcollection_filters \<noteq> [] \<longrightarrow>
      results =
        map (\<lambda>p. joined_record db subcollection_name p
                   (children_of db subcollection_name subcollection_filters p))
          (filter (\<lambda>p. children_of db subcollection_name subcollection_filters p \<noteq> []) parents)"
    by simp
  moreover from results have "subcollection_filters = [] \<longrightarrow>
      results =
        map (\<lambda>p. joined_record db subcollection_name p (children_of db subcollection_name [] p))
          parents"
    by simp
  ultimately show ?thesis using db parents each unfiltered by blast
qed

theorem parents_included_witness:
  "query_firestore_with_subcollection
     (Inr (memory_client
        [(''orders'',
          [Document ''o1'' [(''status'', PyStr ''open'')]
             [(''items'', [Document ''i1'' [(''sku'', PyStr ''a'')] [],
                           Document ''i2'' [(''sku'', PyStr ''b'')] []])],
           Document ''o2'' [(''status'', PyStr ''open'')] []])]))
     ''orders'' ''items'' [(''status'', PyStr ''open'')] [(''sku'', PyStr ''a'')] =
   (Inr [[(''id'', PyStr ''o1''), (''status'', PyStr ''open''),
          (''items'', PyList [PyDict [(''id'', PyStr ''i1''), (''sku'', PyStr ''a'')]])]]
      :: exn + (string \<times> unit pyval) list list)
   \<and> (\<exists>db parents.
         (Inr (memory_client
            [(''orders'',
              [Document ''o1'' [(''status'', PyStr ''open'')]
                 [(''items'', [Document ''i1'' [(''sku'', PyStr ''a'')] [],
                               Document ''i2'' [(''sku'', PyStr ''b'')] []])],
               Document ''o2'' [(''status'', PyStr ''open'')] []])])
            :: exn + (unit document list, unit document, unit) firestore) = Inr db
       \<and> fetched_parents db ''orders'' [(''status'', PyStr ''open'')] = Inr parents
       \<and> [[(''id'', PyStr ''o1''), (''status'', PyStr ''open''),
            (''items'', PyList [PyDict [(''id'', PyStr ''i1''), (''sku'', PyStr ''a'')]])]] =
           map (\<lambda>p. joined_record db ''items'' p (children_of db ''items'' [(''sku'', PyStr ''a'')] p))
             (filter (\<lambda>p. children_of db ''items'' [(''sku'', PyStr ''a'')] p \<noteq> []) parents))"
proof -
  let ?client = "Inr (memory_client
        [(''orders'',
          [Document ''o1'' [(''status'', PyStr ''open'')]
             [(''items'', [Document ''i1'' [(''sku'', PyStr ''a'')] [],
                           Document ''i2'' [(''sku'', PyStr ''b'')] []])],
           Document ''o2'' [(''status'', PyStr ''open'')] []])])
      :: exn + (unit document list, unit document, unit) firestore"
  let ?results = "[[(''id'', PyStr ''o1''), (''status'', PyStr ''open''),
      (''items'', PyList [PyDict [(''id'', PyStr ''i1''), (''sku'', PyStr ''a'')]])]]
      :: (string \<times> unit pyval) list list"
  have run: "query_firestore_with_subcollection ?client ''orders'' ''items''
      [(''status'', PyStr ''open'')] [(''sku'', PyStr ''a'')] = Inr ?results"
    by (simp add: query_firestore_with_subcollection_def memory_client_def id_and_fields_def)
  from parents_included [OF run] obtain db parents where
      "?client = Inr db"
      "fetched_parents db ''orders'' [(''status'', PyStr ''open'')] = Inr parents"
      "[(''sku'', PyStr ''a'')] \<noteq> ([] :: (string \<times> unit pyval) list) \<longrightarrow>
         ?results =
           map (\<lambda>p. joined_record db ''items'' p (children_of db ''items'' [(''sku'', PyStr ''a'')] p))
             (filter (\<lambda>p. children_of db ''items'' [(''sku'', PyStr ''a'')] p \<noteq> []) parents)"
    by (elim exE conjE) (rule that, assumption+)
  with run show ?thesis by auto
qed

end
